theory Spec2Isabelle
  imports Complex_Main
begin

section \<open>Data model of a benefit period record (models/Benefit.js)\<close>

text \<open>
  The schema of the \<^verbatim>\<open>Benefit\<close> model, field by field. Object ids and user ids are
  strings and stand for well-formed ids; a date is its number of milliseconds since the
  epoch. The fields \<^verbatim>\<open>scheduleFile\<close>, \<^verbatim>\<open>addressChanged\<close>, \<^verbatim>\<open>newAddress\<close>,
  \<^verbatim>\<open>paymentDate\<close>, \<^verbatim>\<open>paymentMethod\<close>, \<^verbatim>\<open>flashResponse\<close>, \<^verbatim>\<open>timesheetData\<close>,
  \<^verbatim>\<open>notes\<close>, \<^verbatim>\<open>createdBy\<close> and \<^verbatim>\<open>createdAt\<close> are read or written by none of the
  operations below and are left out; of \<^verbatim>\<open>year\<close>, written once when a record is
  created and never read, only its validity is kept (see the calculate route).
  \<^verbatim>\<open>updatedAt\<close> is the field the in-memory server assigns; the timestamps that the
  database layer maintains by itself on every save are left out.
\<close>

type_synonym oid = string
type_synonym jsdate = int

subsection \<open>JavaScript numbers\<close>

text \<open>
  A number is a real or \<^verbatim>\<open>NaN\<close>, which \<^verbatim>\<open>parseFloat\<close> returns for a text that is no
  number. Sums, differences and products are exact on reals (rounding and infinities of
  IEEE doubles are outside this development) and \<^verbatim>\<open>NaN\<close> as soon as an operand is;
  so is \<^verbatim>\<open>Math.max\<close>. \<^verbatim>\<open>x || 0\<close> is \<open>x\<close> unless \<open>x\<close> is \<^verbatim>\<open>NaN\<close> (or 0).
\<close>

datatype jsnum = Num real | NaN

instantiation jsnum :: "{zero, one, plus, minus, uminus, times}"
begin

definition zero_jsnum :: jsnum where "zero_jsnum = Num 0"

definition one_jsnum :: jsnum where "one_jsnum = Num 1"

fun plus_jsnum :: "jsnum \<Rightarrow> jsnum \<Rightarrow> jsnum" where
  "plus_jsnum (Num a) (Num b) = Num (a + b)"
| "plus_jsnum _ _ = NaN"

fun minus_jsnum :: "jsnum \<Rightarrow> jsnum \<Rightarrow> jsnum" where
  "minus_jsnum (Num a) (Num b) = Num (a - b)"
| "minus_jsnum _ _ = NaN"

fun uminus_jsnum :: "jsnum \<Rightarrow> jsnum" where
  "uminus_jsnum (Num a) = Num (- a)"
| "uminus_jsnum NaN = NaN"

fun times_jsnum :: "jsnum \<Rightarrow> jsnum \<Rightarrow> jsnum" where
  "times_jsnum (Num a) (Num b) = Num (a * b)"
| "times_jsnum _ _ = NaN"

instance ..

end

text \<open>With \<^verbatim>\<open>NaN\<close> absorbing, addition is still associative and commutative with unit 0.\<close>

lemma plus_jsnum_NaN: "NaN + x = NaN" "x + NaN = NaN"
  by (induct x) auto

lemma plus_jsnum_assoc:
  fixes x y z :: jsnum
  shows "x + y + z = x + (y + z)"
proof (induct x)
  case (Num r)
  show ?case by (induct y; induct z) (auto simp: plus_jsnum_NaN)
next
  case NaN
  show ?case by (simp add: plus_jsnum_NaN)
qed

lemma plus_jsnum_commute:
  fixes x y :: jsnum
  shows "x + y = y + x"
  by (induct x; induct y) auto

lemma plus_jsnum_zero:
  fixes x :: jsnum
  shows "0 + x = x"
  by (induct x) (auto simp: zero_jsnum_def)

instance jsnum :: comm_monoid_add
  by standard (rule plus_jsnum_assoc plus_jsnum_commute plus_jsnum_zero)+

instance jsnum :: numeral ..

text \<open>\<^verbatim>\<open>Math.max(a, b)\<close> and \<^verbatim>\<open>x || 0\<close>\<close>

fun mathMax :: "jsnum \<Rightarrow> jsnum \<Rightarrow> jsnum" where
  "mathMax (Num a) (Num b) = Num (max a b)"
| "mathMax _ _ = NaN"


subsection \<open>The record\<close>

datatype payment_status = Pending | Calculated | Approved | Paid | Cancelled

datatype flash_status = FlashPending | Processing | Completed | Failed

text \<open>
  A deduction as the routes build it from a request: \<^verbatim>\<open>date\<close> is \<^verbatim>\<open>new Date(date)\<close>,
  \<open>None\<close> for an invalid date; \<^verbatim>\<open>amount\<close> is \<^verbatim>\<open>parseFloat(amount)\<close>; \<^verbatim>\<open>reason\<close> is
  \<open>None\<close> when the request gives none; \<^verbatim>\<open>type\<close> is the text given. The schema asks for
  a date, an amount and a reason (\<^verbatim>\<open>required: true\<close>, which refuses the empty text too)
  and for a type among the four of its \<^verbatim>\<open>enum\<close>.
\<close>

record deduction =
  date :: "jsdate option"
  amount :: jsnum
  reason :: "string option"
  dtype :: string
  recordedBy :: oid
  recordedAt :: jsdate

definition validDeduction :: "deduction \<Rightarrow> bool" where
  "validDeduction d \<longleftrightarrow>
     date d \<noteq> None \<and> amount d \<noteq> NaN
     \<and> (case reason d of None \<Rightarrow> False | Some r \<Rightarrow> r \<noteq> [])
     \<and> dtype d \<in> set [''Absence'', ''Holiday'', ''Vacation'', ''Other'']"

record vr_doc =
  vr_enabled :: bool
  vr_dailyValue :: jsnum
  vr_businessDays :: jsnum
  vr_saturdays :: jsnum
  vr_totalDays :: jsnum
  vr_totalAmount :: jsnum
  vr_deductions :: "deduction list"
  vr_finalAmount :: jsnum

record vt_doc =
  vt_enabled :: bool
  vt_fixedAmount :: jsnum
  vt_dailyValue :: jsnum
  vt_totalDays :: jsnum
  vt_totalAmount :: jsnum
  vt_deductions :: "deduction list"
  vt_finalAmount :: jsnum

record mob_doc =
  mob_enabled :: bool
  mob_monthlyValue :: jsnum

record flash_doc =
  sent :: bool
  sentAt :: "jsdate option"
  sentBy :: "oid option"
  flashReference :: "string option"
  flashStatus :: flash_status

record benefit =
  b_id :: oid
  employeeId :: oid
  month :: string
  valeRefeicao :: vr_doc
  valeTransporte :: vt_doc
  mobilidade :: mob_doc
  paymentStatus :: payment_status
  flashPayment :: flash_doc
  updatedBy :: "oid option"
  updatedAt :: "jsdate option"

section \<open>Methods of the model (models/Benefit.js)\<close>

text \<open>\<^verbatim>\<open>deductions.reduce((sum, deduction) => sum + deduction.amount, 0)\<close>\<close>

definition sumDeductions :: "deduction list \<Rightarrow> jsnum" where
  "sumDeductions ds = foldl (\<lambda>sum deduction. sum + amount deduction) 0 ds"

text \<open>The virtual \<^verbatim>\<open>totalBenefitAmount\<close>.\<close>

definition totalBenefitAmount :: "benefit \<Rightarrow> jsnum" where
  "totalBenefitAmount b =
     (let total = 0;
          total = (if vr_enabled (valeRefeicao b)
                   then total + vr_finalAmount (valeRefeicao b) else total);
          total = (if vt_enabled (valeTransporte b)
                   then total + vt_finalAmount (valeTransporte b) else total);
          total = (if mob_enabled (mobilidade b)
                   then total + mob_monthlyValue (mobilidade b) else total)
      in total)"

text \<open>
  \<^verbatim>\<open>calculateVR\<close> and \<^verbatim>\<open>calculateVT\<close> mutate the document and return a number: the
  model returns the pair of the returned number and the document afterwards.
\<close>

definition calculateVR :: "benefit \<Rightarrow> jsnum \<times> benefit" where
  "calculateVR b =
     (if \<not> vr_enabled (valeRefeicao b) then (0, b)
      else
        let vr = valeRefeicao b;
            vr = vr\<lparr>vr_totalDays := vr_businessDays vr + vr_saturdays vr\<rparr>;
            vr = vr\<lparr>vr_totalAmount := vr_totalDays vr * vr_dailyValue vr\<rparr>;
            totalDeductions = sumDeductions (vr_deductions vr);
            vr = vr\<lparr>vr_finalAmount := mathMax 0 (vr_totalAmount vr - totalDeductions)\<rparr>
        in (vr_finalAmount vr, b\<lparr>valeRefeicao := vr\<rparr>))"

definition calculateVT :: "benefit \<Rightarrow> jsnum \<times> benefit" where
  "calculateVT b =
     (if \<not> vt_enabled (valeTransporte b) then (0, b)
      else
        let vt = valeTransporte b;
            vt = vt\<lparr>vt_totalAmount := vt_fixedAmount vt\<rparr>;
            totalDeductions = sumDeductions (vt_deductions vt);
            vt = vt\<lparr>vt_finalAmount := mathMax 0 (vt_totalAmount vt - totalDeductions)\<rparr>
        in (vt_finalAmount vt, b\<lparr>valeTransporte := vt\<rparr>))"

text \<open>
  \<^verbatim>\<open>addDeduction(benefitType, deductionData)\<close>: a push on the list the type string
  names (on neither for any other string), then both calculators.
\<close>

definition addDeduction :: "string \<Rightarrow> deduction \<Rightarrow> benefit \<Rightarrow> benefit" where
  "addDeduction benefitType deductionData b =
     (let b = (if benefitType = ''VR''
               then b\<lparr>valeRefeicao := (valeRefeicao b)
                         \<lparr>vr_deductions := vr_deductions (valeRefeicao b) @ [deductionData]\<rparr>\<rparr>
               else if benefitType = ''VT''
               then b\<lparr>valeTransporte := (valeTransporte b)
                         \<lparr>vt_deductions := vt_deductions (valeTransporte b) @ [deductionData]\<rparr>\<rparr>
               else b);
          b = snd (calculateVR b);
          b = snd (calculateVT b)
      in b)"

text \<open>\<^verbatim>\<open>sendToFlash(userId)\<close>; the second argument is the value of \<^verbatim>\<open>new Date()\<close>.\<close>

definition sendToFlash :: "oid \<Rightarrow> jsdate \<Rightarrow> benefit \<Rightarrow> benefit" where
  "sendToFlash userId now b =
     (let fp = flashPayment b;
          fp = fp\<lparr>sent := True\<rparr>;
          fp = fp\<lparr>sentAt := Some now\<rparr>;
          fp = fp\<lparr>sentBy := Some userId\<rparr>;
          fp = fp\<lparr>flashStatus := FlashPending\<rparr>
      in b\<lparr>flashPayment := fp, paymentStatus := Approved\<rparr>)"



definition defaultMob :: mob_doc where
  "defaultMob = \<lparr>mob_enabled = False, mob_monthlyValue = 0\<rparr>"

definition defaultFlash :: flash_doc where
  "defaultFlash = \<lparr>sent = False, sentAt = None, sentBy = None, flashReference = None,
     flashStatus = FlashPending\<rparr>"


section \<open>The database routes (routes/benefits.js)\<close>



definition save :: "benefit \<Rightarrow> benefit list \<Rightarrow> benefit list" where
  "save doc db =
     (if b_id doc \<in> set (map b_id db)
      then map (\<lambda>x. if b_id x = b_id doc then doc else x) db
      else db @ [doc])"

definition findById :: "oid \<Rightarrow> benefit list \<Rightarrow> benefit option" where
  "findById i db = List.find (\<lambda>b. b_id b = i) db"

datatype response = Success string benefit | Failure nat string

subsection \<open>POST /calculate\<close>

text \<open>
  The request carries optional objects \<^verbatim>\<open>valeRefeicao\<close>, \<^verbatim>\<open>valeTransporte\<close> and
  \<^verbatim>\<open>mobilidade\<close>; each may give any field of the sub-document, and
  \<^verbatim>\<open>{ ...benefit.valeRefeicao, ...valeRefeicao }\<close> lets a given field replace the stored
  one. \<open>cq_year\<close> is the text of \<^verbatim>\<open>year\<close> in the month key and \<open>cq_yearInt\<close> is
  \<^verbatim>\<open>parseInt(year)\<close>, \<open>None\<close> when that is \<^verbatim>\<open>NaN\<close>.
\<close>

fun override :: "'a \<Rightarrow> 'a option \<Rightarrow> 'a" where
  "override old None = old"
| "override old (Some v) = v"

record vr_patch =
  p_vr_enabled :: "bool option"
  p_vr_dailyValue :: "jsnum option"
  p_vr_businessDays :: "jsnum option"
  p_vr_saturdays :: "jsnum option"
  p_vr_totalDays :: "jsnum option"
  p_vr_totalAmount :: "jsnum option"
  p_vr_deductions :: "deduction list option"
  p_vr_finalAmount :: "jsnum option"

record vt_patch =
  p_vt_enabled :: "bool option"
  p_vt_fixedAmount :: "jsnum option"
  p_vt_dailyValue :: "jsnum option"
  p_vt_totalDays :: "jsnum option"
  p_vt_totalAmount :: "jsnum option"
  p_vt_deductions :: "deduction list option"
  p_vt_finalAmount :: "jsnum option"

record mob_patch =
  p_mob_enabled :: "bool option"
  p_mob_monthlyValue :: "jsnum option"

definition mergeVR :: "vr_doc \<Rightarrow> vr_patch \<Rightarrow> vr_doc" where
  "mergeVR vr p =
     \<lparr>vr_enabled = override (vr_enabled vr) (p_vr_enabled p),
      vr_dailyValue = override (vr_dailyValue vr) (p_vr_dailyValue p),
      vr_businessDays = override (vr_businessDays vr) (p_vr_businessDays p),
      vr_saturdays = override (vr_saturdays vr) (p_vr_saturdays p),
      vr_totalDays = override (vr_totalDays vr) (p_vr_totalDays p),
      vr_totalAmount = override (vr_totalAmount vr) (p_vr_totalAmount p),
      vr_deductions = override (vr_deductions vr) (p_vr_deductions p),
      vr_finalAmount = override (vr_finalAmount vr) (p_vr_finalAmount p)\<rparr>"

definition mergeVT :: "vt_doc \<Rightarrow> vt_patch \<Rightarrow> vt_doc" where
  "mergeVT vt p =
     \<lparr>vt_enabled = override (vt_enabled vt) (p_vt_enabled p),
      vt_fixedAmount = override (vt_fixedAmount vt) (p_vt_fixedAmount p),
      vt_dailyValue = override (vt_dailyValue vt) (p_vt_dailyValue p),
      vt_totalDays = override (vt_totalDays vt) (p_vt_totalDays p),
      vt_totalAmount = override (vt_totalAmount vt) (p_vt_totalAmount p),
      vt_deductions = override (vt_deductions vt) (p_vt_deductions p),
      vt_finalAmount = override (vt_finalAmount vt) (p_vt_finalAmount p)\<rparr>"

definition mergeMob :: "mob_doc \<Rightarrow> mob_patch \<Rightarrow> mob_doc" where
  "mergeMob mb p =
     \<lparr>mob_enabled = override (mob_enabled mb) (p_mob_enabled p),
      mob_monthlyValue = override (mob_monthlyValue mb) (p_mob_monthlyValue p)\<rparr>"

record calc_request =
  cq_employeeId :: oid
  cq_month :: string
  cq_year :: string
  cq_yearInt :: "int option"
  cq_valeRefeicao :: "vr_patch option"
  cq_valeTransporte :: "vt_patch option"
  cq_mobilidade :: "mob_patch option"

text \<open>The three \<^verbatim>\<open>if (valeRefeicao) { ... }\<close> updates of the route.\<close>

definition applyPatches :: "calc_request \<Rightarrow> benefit \<Rightarrow> benefit" where
  "applyPatches req benefit =
     (let benefit = (case cq_valeRefeicao req of None \<Rightarrow> benefit
                     | Some p \<Rightarrow> benefit\<lparr>valeRefeicao := mergeVR (valeRefeicao benefit) p\<rparr>);
          benefit = (case cq_valeTransporte req of None \<Rightarrow> benefit
                     | Some p \<Rightarrow> benefit\<lparr>valeTransporte := mergeVT (valeTransporte benefit) p\<rparr>);
          benefit = (case cq_mobilidade req of None \<Rightarrow> benefit
                     | Some p \<Rightarrow> benefit\<lparr>mobilidade := mergeMob (mobilidade benefit) p\<rparr>)
      in benefit)"

text \<open>The route from the updates to the assignment of \<^verbatim>\<open>updatedBy\<close>, on the document.\<close>

definition calculateDoc :: "oid \<Rightarrow> calc_request \<Rightarrow> benefit \<Rightarrow> benefit" where
  "calculateDoc user req benefit =
     (let benefit = applyPatches req benefit;
          benefit = snd (calculateVR benefit);
          benefit = snd (calculateVT benefit);
          benefit = benefit\<lparr>paymentStatus := Calculated\<rparr>;
          benefit = benefit\<lparr>updatedBy := Some user\<rparr>
      in benefit)"


subsection \<open>POST /deduction\<close>

text \<open>
  \<open>dq_date\<close> is \<^verbatim>\<open>new Date(date)\<close> (\<open>None\<close> for an invalid date), \<open>dq_amount\<close> is
  \<^verbatim>\<open>parseFloat(amount)\<close>; \<open>dq_reason\<close> and \<open>dq_type\<close> are \<open>None\<close> when the request
  gives none. In \<^verbatim>\<open>type || 'Absence'\<close> the empty text counts as none.
\<close>

record deduction_request =
  dq_benefitId :: oid
  dq_benefitType :: string
  dq_date :: "jsdate option"
  dq_amount :: jsnum
  dq_reason :: "string option"
  dq_type :: "string option"

definition deductionData :: "oid \<Rightarrow> jsdate \<Rightarrow> deduction_request \<Rightarrow> deduction" where
  "deductionData user now req =
     \<lparr>date = dq_date req, amount = dq_amount req, reason = dq_reason req,
      dtype = (case dq_type req of None \<Rightarrow> ''Absence''
               | Some t \<Rightarrow> if t = [] then ''Absence'' else t),
      recordedBy = user, recordedAt = now\<rparr>"

text \<open>
  What \<^verbatim>\<open>save()\<close> can refuse here is the deduction pushed, and one is pushed only for
  the types \<^verbatim>\<open>'VR'\<close> and \<^verbatim>\<open>'VT'\<close>.
\<close>

definition routeDeduction ::
  "oid \<Rightarrow> jsdate \<Rightarrow> deduction_request \<Rightarrow> benefit list \<Rightarrow> response \<times> benefit list" where
  "routeDeduction user now req db =
     (case findById (dq_benefitId req) db of
        None \<Rightarrow> (Failure 404 ''Benefit not found'', db)
      | Some benefit \<Rightarrow>
          let benefit = addDeduction (dq_benefitType req) (deductionData user now req) benefit;
              benefit = benefit\<lparr>updatedBy := Some user\<rparr>
          in if (dq_benefitType req = ''VR'' \<or> dq_benefitType req = ''VT'')
                \<and> \<not> validDeduction (deductionData user now req)
             then (Failure 500 ''Failed to add deduction'', db)
             else (Success ''Deduction added successfully'' benefit, save benefit db))"

subsection \<open>POST /approve\<close>

text \<open>
  \<^verbatim>\<open>Benefit.find({ _id: { $in: benefitIds } })\<close>, then the loop over the documents found.
  The number returned is the one the message prints
  (\<^verbatim>\<open>`${benefits.length} benefits approved for payment`\<close>).
\<close>

definition approveDoc :: "oid \<Rightarrow> benefit \<Rightarrow> benefit" where
  "approveDoc user benefit = benefit\<lparr>paymentStatus := Approved, updatedBy := Some user\<rparr>"

definition routeApprove :: "oid \<Rightarrow> oid list \<Rightarrow> benefit list \<Rightarrow> nat \<times> benefit list" where
  "routeApprove user benefitIds db =
     (let benefits = filter (\<lambda>b. b_id b \<in> set benefitIds) db;
          db = fold (\<lambda>benefit db. save (approveDoc user benefit) db) benefits db
      in (length benefits, db))"

subsection \<open>POST /send-to-flash\<close>

record employee_datum =
  ed_employeeId :: oid
  ed_amount :: jsnum
  ed_vrAmount :: jsnum
  ed_vtAmount :: jsnum
  ed_mobilidadeAmount :: jsnum

record flash_response =
  fr_success :: bool
  fr_reference :: string
  fr_totalAmount :: jsnum
  fr_employeeCount :: nat
  fr_status :: flash_status

record send_result =
  sr_count :: nat
  sr_flashResponse :: flash_response
  sr_totalAmount :: jsnum
  sr_employeeData :: "employee_datum list"

definition toSend :: "oid list \<Rightarrow> benefit \<Rightarrow> bool" where
  "toSend benefitIds b \<longleftrightarrow>
     b_id b \<in> set benefitIds \<and> paymentStatus b = Approved \<and> sent (flashPayment b) = False"

text \<open>One turn of the loop: the state is the running total, the list pushed to, the collection.\<close>

definition sendStep ::
  "oid \<Rightarrow> jsdate \<Rightarrow> benefit \<Rightarrow> jsnum \<times> employee_datum list \<times> benefit list
     \<Rightarrow> jsnum \<times> employee_datum list \<times> benefit list" where
  "sendStep user now benefit st =
     (case st of (totalAmount, employeeData, db) \<Rightarrow>
        let benefit = sendToFlash user now benefit;
            totalAmount = totalAmount + totalBenefitAmount benefit;
            employeeData = employeeData @
              [\<lparr>ed_employeeId = employeeId benefit,
                ed_amount = totalBenefitAmount benefit,
                ed_vrAmount = vr_finalAmount (valeRefeicao benefit),
                ed_vtAmount = vt_finalAmount (valeTransporte benefit),
                ed_mobilidadeAmount = mob_monthlyValue (mobilidade benefit)\<rparr>]
        in (totalAmount, employeeData, save benefit db))"

text \<open>\<open>nowStr\<close> is the decimal text of \<^verbatim>\<open>Date.now()\<close> in \<^verbatim>\<open>`FLASH-${Date.now()}`\<close>.\<close>

definition routeSendToFlash ::
  "oid \<Rightarrow> jsdate \<Rightarrow> string \<Rightarrow> oid list \<Rightarrow> benefit list \<Rightarrow> send_result \<times> benefit list" where
  "routeSendToFlash user now nowStr benefitIds db =
     (let benefits = filter (toSend benefitIds) db
      in case fold (sendStep user now) benefits (0, [], db) of
           (totalAmount, employeeData, db') \<Rightarrow>
             (\<lparr>sr_count = length benefits,
               sr_flashResponse =
                 \<lparr>fr_success = True, fr_reference = ''FLASH-'' @ nowStr,
                  fr_totalAmount = totalAmount, fr_employeeCount = length benefits,
                  fr_status = Processing\<rparr>,
               sr_totalAmount = totalAmount,
               sr_employeeData = employeeData\<rparr>, db'))"

subsection \<open>GET /statistics/:month/:year\<close>

record stats =
  totalVR :: jsnum
  totalVT :: jsnum
  totalMobilidade :: jsnum
  totalAmount :: jsnum
  employeeCount :: nat
  pendingCount :: nat
  calculatedCount :: nat
  approvedCount :: nat
  paidCount :: nat



section \<open>The in-memory server (the demonstration server of the same API)\<close>

text \<open>
  The second implementation keeps the records in the array \<^verbatim>\<open>demoBenefits\<close> and mutates
  the element that \<^verbatim>\<open>demoBenefits.find\<close> returns, that is the first match. Its routes are
  modelled on records that have all their sub-documents, as
  \<^verbatim>\<open>GET /api/benefits/employee/:employeeId/:month/:year\<close> creates them. Nothing is
  validated here: what a request gives is stored as it is.
\<close>

fun updateFirst :: "('a \<Rightarrow> bool) \<Rightarrow> ('a \<Rightarrow> 'a) \<Rightarrow> 'a list \<Rightarrow> 'a list" where
  "updateFirst P f [] = []"
| "updateFirst P f (x # xs) = (if P x then f x # xs else x # updateFirst P f xs)"

subsection \<open>POST /api/benefits/calculate, on the record found\<close>

definition demoCalculateDoc :: "oid \<Rightarrow> jsdate \<Rightarrow> calc_request \<Rightarrow> benefit \<Rightarrow> benefit" where
  "demoCalculateDoc user now req benefit =
     (let benefit = applyPatches req benefit;
          benefit =
            (if vr_enabled (valeRefeicao benefit) then
               let vr = valeRefeicao benefit;
                   vr = vr\<lparr>vr_totalDays := vr_businessDays vr + vr_saturdays vr\<rparr>;
                   vr = vr\<lparr>vr_totalAmount := vr_totalDays vr * vr_dailyValue vr\<rparr>;
                   totalVRDeductions = sumDeductions (vr_deductions vr);
                   vr = vr\<lparr>vr_finalAmount := mathMax 0 (vr_totalAmount vr - totalVRDeductions)\<rparr>
               in benefit\<lparr>valeRefeicao := vr\<rparr>
             else benefit);
          benefit =
            (if vt_enabled (valeTransporte benefit) then
               let vt = valeTransporte benefit;
                   vt = vt\<lparr>vt_totalAmount := vt_fixedAmount vt\<rparr>;
                   totalVTDeductions = sumDeductions (vt_deductions vt);
                   vt = vt\<lparr>vt_finalAmount := mathMax 0 (vt_totalAmount vt - totalVTDeductions)\<rparr>
               in benefit\<lparr>valeTransporte := vt\<rparr>
             else benefit);
          benefit = benefit\<lparr>paymentStatus := Calculated\<rparr>;
          benefit = benefit\<lparr>updatedAt := Some now\<rparr>;
          benefit = benefit\<lparr>updatedBy := Some user\<rparr>
      in benefit)"

subsection \<open>POST /api/benefits/deduction\<close>

definition demoDeductionDoc :: "oid \<Rightarrow> jsdate \<Rightarrow> deduction_request \<Rightarrow> benefit \<Rightarrow> benefit" where
  "demoDeductionDoc user now req benefit =
     (let d = deductionData user now req;
          benefit =
            (if dq_benefitType req = ''VR'' then
               let vr = valeRefeicao benefit;
                   vr = vr\<lparr>vr_deductions := vr_deductions vr @ [d]\<rparr>;
                   totalDeductions = sumDeductions (vr_deductions vr);
                   vr = vr\<lparr>vr_finalAmount := mathMax 0 (vr_totalAmount vr - totalDeductions)\<rparr>
               in benefit\<lparr>valeRefeicao := vr\<rparr>
             else if dq_benefitType req = ''VT'' then
               let vt = valeTransporte benefit;
                   vt = vt\<lparr>vt_deductions := vt_deductions vt @ [d]\<rparr>;
                   totalDeductions = sumDeductions (vt_deductions vt);
                   vt = vt\<lparr>vt_finalAmount := mathMax 0 (vt_totalAmount vt - totalDeductions)\<rparr>
               in benefit\<lparr>valeTransporte := vt\<rparr>
             else benefit);
          benefit = benefit\<lparr>updatedAt := Some now\<rparr>;
          benefit = benefit\<lparr>updatedBy := Some user\<rparr>
      in benefit)"

definition demoDeduction ::
  "oid \<Rightarrow> jsdate \<Rightarrow> deduction_request \<Rightarrow> benefit list \<Rightarrow> response \<times> benefit list" where
  "demoDeduction user now req demoBenefits =
     (case List.find (\<lambda>b. b_id b = dq_benefitId req) demoBenefits of
        None \<Rightarrow> (Failure 404 ''Benefit not found'', demoBenefits)
      | Some benefit \<Rightarrow>
          (Success ''Deduction added successfully'' (demoDeductionDoc user now req benefit),
           updateFirst (\<lambda>b. b_id b = dq_benefitId req) (demoDeductionDoc user now req)
             demoBenefits))"

subsection \<open>POST /api/benefits/approve\<close>

definition demoApproveDoc :: "oid \<Rightarrow> jsdate \<Rightarrow> benefit \<Rightarrow> benefit" where
  "demoApproveDoc user now benefit =
     benefit\<lparr>paymentStatus := Approved, updatedAt := Some now, updatedBy := Some user\<rparr>"

text \<open>The loop over \<^verbatim>\<open>benefitIds\<close>, with the array and the counter \<^verbatim>\<open>approvedCount\<close> (here \<open>approved\<close>) as its state.\<close>

fun demoApproveLoop ::
  "oid \<Rightarrow> jsdate \<Rightarrow> oid list \<Rightarrow> benefit list \<Rightarrow> nat \<Rightarrow> nat \<times> benefit list" where
  "demoApproveLoop user now [] demoBenefits approved = (approved, demoBenefits)"
| "demoApproveLoop user now (benefitId # rest) demoBenefits approved =
     (case List.find (\<lambda>b. b_id b = benefitId) demoBenefits of
        Some benefit \<Rightarrow>
          demoApproveLoop user now rest
            (updateFirst (\<lambda>b. b_id b = benefitId) (demoApproveDoc user now) demoBenefits)
            (approved + 1)
      | None \<Rightarrow> demoApproveLoop user now rest demoBenefits approved)"

definition demoApprove :: "oid \<Rightarrow> jsdate \<Rightarrow> oid list \<Rightarrow> benefit list \<Rightarrow> nat \<times> benefit list" where
  "demoApprove user now benefitIds demoBenefits =
     demoApproveLoop user now benefitIds demoBenefits 0"

subsection \<open>GET /api/benefits/statistics/:month/:year\<close>


section \<open>Example records\<close>

text \<open>
  A record as the employee route creates it for an employee with a meal voucher of 25 a
  day on 22 business days and a fixed transport voucher of 300: nothing calculated yet.
\<close>

definition exampleVR :: vr_doc where
  "exampleVR = \<lparr>vr_enabled = True, vr_dailyValue = 25, vr_businessDays = 22, vr_saturdays = 0,
     vr_totalDays = 22, vr_totalAmount = 0, vr_deductions = [], vr_finalAmount = 0\<rparr>"

definition exampleVT :: vt_doc where
  "exampleVT = \<lparr>vt_enabled = True, vt_fixedAmount = 300, vt_dailyValue = 0, vt_totalDays = 22,
     vt_totalAmount = 0, vt_deductions = [], vt_finalAmount = 0\<rparr>"

definition exampleBenefit :: benefit where
  "exampleBenefit =
     \<lparr>b_id = ''b1'', employeeId = ''e1'', month = ''2024-01'', valeRefeicao = exampleVR,
      valeTransporte = exampleVT, mobilidade = defaultMob, paymentStatus = Pending,
      flashPayment = defaultFlash, updatedBy = None, updatedAt = None\<rparr>"

text \<open>A deduction of the given amount, dated 15 January 2024.\<close>

definition exampleDeduction :: "jsnum \<Rightarrow> deduction" where
  "exampleDeduction a =
     \<lparr>date = Some 1705276800000, amount = a, reason = Some ''Absence'', dtype = ''Absence'',
      recordedBy = ''hr'', recordedAt = 1705276800000\<rparr>"

section \<open>Auxiliary notions for the proofs\<close>

text \<open>
  \<open>patchWith f bs x\<close> is \<open>f\<close> of the first document of \<open>bs\<close> that has the
  \<^verbatim>\<open>_id\<close> of \<open>x\<close>, and \<open>x\<close> when there is none: what a loop of saves leaves
  of a stored document.
\<close>

definition patchWith :: "(benefit \<Rightarrow> benefit) \<Rightarrow> benefit list \<Rightarrow> benefit \<Rightarrow> benefit" where
  "patchWith f bs x = (case List.find (\<lambda>b. b_id b = b_id x) bs of None \<Rightarrow> x | Some b \<Rightarrow> f b)"

text \<open>The entry of \<^verbatim>\<open>employeeData\<close> pushed for a record.\<close>

definition datumOf :: "benefit \<Rightarrow> employee_datum" where
  "datumOf b = \<lparr>ed_employeeId = employeeId b, ed_amount = totalBenefitAmount b,
      ed_vrAmount = vr_finalAmount (valeRefeicao b), ed_vtAmount = vt_finalAmount (valeTransporte b),
      ed_mobilidadeAmount = mob_monthlyValue (mobilidade b)\<rparr>"

text \<open>
  A sub-document is fresh when its stored amounts are the ones its calculator would store
  (trivially so for a disabled benefit, which the calculator does not touch).
\<close>

definition vrFresh :: "benefit \<Rightarrow> bool" where
  "vrFresh b \<longleftrightarrow>
     (vr_enabled (valeRefeicao b) \<longrightarrow>
        vr_totalDays (valeRefeicao b) = vr_businessDays (valeRefeicao b) + vr_saturdays (valeRefeicao b)
      \<and> vr_totalAmount (valeRefeicao b) = vr_totalDays (valeRefeicao b) * vr_dailyValue (valeRefeicao b)
      \<and> vr_finalAmount (valeRefeicao b)
          = mathMax 0 (vr_totalAmount (valeRefeicao b) - sumDeductions (vr_deductions (valeRefeicao b))))"

definition vtFresh :: "benefit \<Rightarrow> bool" where
  "vtFresh b \<longleftrightarrow>
     (vt_enabled (valeTransporte b) \<longrightarrow>
        vt_totalAmount (valeTransporte b) = vt_fixedAmount (valeTransporte b)
      \<and> vt_finalAmount (valeTransporte b)
          = mathMax 0 (vt_totalAmount (valeTransporte b) - sumDeductions (vt_deductions (valeTransporte b))))"

text \<open>
  Two approved records that have not been sent: the first is worth 450 (meal voucher of 550
  less a deduction of 100, no transport voucher), the second 250 (transport voucher of 300
  less a deduction of 50, no meal voucher). The third is the example record after a
  calculation.
\<close>

definition exampleApproved1 :: benefit where
  "exampleApproved1 =
     exampleBenefit\<lparr>valeRefeicao := exampleVR\<lparr>vr_totalAmount := 550,
                        vr_deductions := [exampleDeduction 100], vr_finalAmount := 450\<rparr>,
                    valeTransporte := exampleVT\<lparr>vt_enabled := False\<rparr>,
                    paymentStatus := Approved\<rparr>"

definition exampleApproved2 :: benefit where
  "exampleApproved2 =
     exampleBenefit\<lparr>b_id := ''b2'', employeeId := ''e2'',
                    valeRefeicao := exampleVR\<lparr>vr_enabled := False\<rparr>,
                    valeTransporte := exampleVT\<lparr>vt_totalAmount := 300,
                        vt_deductions := [exampleDeduction 50], vt_finalAmount := 250\<rparr>,
                    paymentStatus := Approved\<rparr>"

definition exampleCalculated :: benefit where
  "exampleCalculated =
     exampleBenefit\<lparr>valeRefeicao := exampleVR\<lparr>vr_totalAmount := 550, vr_finalAmount := 550\<rparr>,
                    valeTransporte := exampleVT\<lparr>vt_totalAmount := 300, vt_finalAmount := 300\<rparr>,
                    paymentStatus := Calculated\<rparr>"

text \<open>
  Deduction requests used in the examples: a deduction of -5 dated 1 January 1970; the
  same with an empty reason; the same with an amount that is no number; a deduction for a
  benefit type that does not exist.
\<close>

definition negativeDeductionRequest :: deduction_request where
  "negativeDeductionRequest =
     \<lparr>dq_benefitId = ''b1'', dq_benefitType = ''VR'', dq_date = Some 0, dq_amount = - 5,
      dq_reason = Some ''Correction'', dq_type = None\<rparr>"


definition nanAmountRequest :: deduction_request where
  "nanAmountRequest = negativeDeductionRequest\<lparr>dq_amount := NaN\<rparr>"

definition otherTypeRequest :: deduction_request where
  "otherTypeRequest =
     \<lparr>dq_benefitId = ''b1'', dq_benefitType = ''Mobilidade'', dq_date = Some 1705276800000,
      dq_amount = 40, dq_reason = Some ''Absence'', dq_type = None\<rparr>"


definition negativeFinalRequest :: calc_request where
  "negativeFinalRequest =
     \<lparr>cq_employeeId = ''e1'', cq_month = ''1'', cq_year = ''2024'', cq_yearInt = Some 2024,
      cq_valeRefeicao = Some \<lparr>p_vr_enabled = Some False, p_vr_dailyValue = None,
        p_vr_businessDays = None, p_vr_saturdays = None, p_vr_totalDays = None,
        p_vr_totalAmount = None, p_vr_deductions = None, p_vr_finalAmount = Some (- 50)\<rparr>,
      cq_valeTransporte = None, cq_mobilidade = None\<rparr>"






section \<open>Basic facts\<close>

subsection \<open>Numbers\<close>

lemma numeral_jsnum: "(numeral k :: jsnum) = Num (numeral k)"
proof (induction k rule: num.induct)
  case One
  show ?case by (simp only: numeral_One one_jsnum_def)
next
  case (Bit0 k)
  have "(numeral (num.Bit0 k) :: jsnum) = numeral k + numeral k" by (rule numeral_Bit0)
  also have "\<dots> = Num (numeral k + numeral k)" by (simp only: Bit0 plus_jsnum.simps)
  also have "numeral k + numeral k = (numeral (num.Bit0 k) :: real)" by (simp only: numeral_Bit0)
  finally show ?case .
next
  case (Bit1 k)
  have "(numeral (num.Bit1 k) :: jsnum) = numeral k + numeral k + 1" by (rule numeral_Bit1)
  also have "\<dots> = Num (numeral k + numeral k + 1)"
    by (simp only: Bit1 plus_jsnum.simps one_jsnum_def)
  also have "numeral k + numeral k + 1 = (numeral (num.Bit1 k) :: real)" by (simp only: numeral_Bit1)
  finally show ?case .
qed

lemmas jsnum_eval = zero_jsnum_def one_jsnum_def numeral_jsnum

lemma sum_list_Num: "sum_list (map Num xs) = Num (sum_list xs)"
  by (induction xs) (simp_all add: zero_jsnum_def)


subsection \<open>The calculators\<close>

lemma foldl_add_amount: "foldl (\<lambda>s d. s + amount d) a ds = a + sum_list (map amount ds)"
  by (induction ds arbitrary: a) (simp_all add: add.assoc)

lemma sumDeductions_sum_list: "sumDeductions ds = sum_list (map amount ds)"
  by (simp add: sumDeductions_def foldl_add_amount)

lemma sumDeductions_Nil: "sumDeductions [] = 0"
  by (simp add: sumDeductions_def)

lemma sumDeductions_snoc: "sumDeductions (ds @ [d]) = sumDeductions ds + amount d"
  by (simp add: sumDeductions_def)

lemma calculateVR_enabled:
  "vr_enabled (valeRefeicao b) \<Longrightarrow>
   calculateVR b =
     (let totalDays = vr_businessDays (valeRefeicao b) + vr_saturdays (valeRefeicao b);
          total = totalDays * vr_dailyValue (valeRefeicao b);
          final = mathMax 0 (total - sum_list (map amount (vr_deductions (valeRefeicao b))))
      in (final, b\<lparr>valeRefeicao := (valeRefeicao b)
            \<lparr>vr_totalDays := totalDays, vr_totalAmount := total, vr_finalAmount := final\<rparr>\<rparr>))"
  by (simp add: calculateVR_def Let_def sumDeductions_sum_list)

lemma calculateVR_disabled: "\<not> vr_enabled (valeRefeicao b) \<Longrightarrow> calculateVR b = (0, b)"
  by (simp add: calculateVR_def)

lemma calculateVT_enabled:
  "vt_enabled (valeTransporte b) \<Longrightarrow>
   calculateVT b =
     (let total = vt_fixedAmount (valeTransporte b);
          final = mathMax 0 (total - sum_list (map amount (vt_deductions (valeTransporte b))))
      in (final, b\<lparr>valeTransporte := (valeTransporte b)
            \<lparr>vt_totalAmount := total, vt_finalAmount := final\<rparr>\<rparr>))"
  by (simp add: calculateVT_def Let_def sumDeductions_sum_list)

lemma calculateVT_disabled: "\<not> vt_enabled (valeTransporte b) \<Longrightarrow> calculateVT b = (0, b)"
  by (simp add: calculateVT_def)

lemma demoCalculateDoc_VR:
  "valeRefeicao (demoCalculateDoc user now req b)
   = valeRefeicao (snd (calculateVR (applyPatches req b)))"
  by (simp add: demoCalculateDoc_def calculateVR_def Let_def)

lemma demoCalculateDoc_VT:
  "valeTransporte (demoCalculateDoc user now req b)
   = valeTransporte (snd (calculateVT (applyPatches req b)))"
  by (simp add: demoCalculateDoc_def calculateVT_def Let_def)

subsection \<open>Loops of saves, searches and sums\<close>

lemma find_in_set: "List.find P xs = Some y \<Longrightarrow> y \<in> set xs \<and> P y"
  by (induction xs) (auto split: if_splits)

lemma find_id: "List.find (\<lambda>b. b_id b = i) bs = Some y \<Longrightarrow> b_id y = i"
  using find_in_set by fastforce

lemma save_present:
  "b_id doc \<in> set (map b_id db) \<Longrightarrow>
   save doc db = map (\<lambda>x. if b_id x = b_id doc then doc else x) db"
  by (simp add: save_def)

lemma patchWith_id:
  assumes "\<And>b. b_id (f b) = b_id b"
  shows "b_id (patchWith f bs x) = b_id x"
proof (cases "List.find (\<lambda>b. b_id b = b_id x) bs")
  case None
  then show ?thesis by (simp add: patchWith_def)
next
  case (Some b)
  then have "b_id b = b_id x" using find_in_set by fastforce
  with Some assms show ?thesis by (simp add: patchWith_def)
qed

lemma fold_save_patch:
  assumes ids: "\<And>b. b_id (f b) = b_id b"
    and sub: "set (map b_id bs) \<subseteq> set (map b_id db)"
  shows "fold (\<lambda>benefit db. save (f benefit) db) bs db = map (patchWith f (rev bs)) db"
  using sub
proof (induction bs rule: rev_induct)
  case Nil
  show ?case by (simp add: patchWith_def)
next
  case (snoc b bs)
  let ?mid = "map (patchWith f (rev bs)) db"
  have IH: "fold (\<lambda>benefit db. save (f benefit) db) bs db = ?mid"
    using snoc by simp
  have same_ids: "map b_id ?mid = map b_id db"
    by (simp add: patchWith_id [OF ids] comp_def)
  have "b_id (f b) \<in> set (map b_id ?mid)"
    using snoc.prems same_ids ids by auto
  then have "save (f b) ?mid = map (\<lambda>x. if b_id x = b_id (f b) then f b else x) ?mid"
    by (rule save_present)
  also have "\<dots> = map (patchWith f (rev (bs @ [b]))) db"
  proof -
    have pt: "(if b_id (patchWith f (rev bs) x) = b_id (f b) then f b else patchWith f (rev bs) x)
          = patchWith f (rev (bs @ [b])) x" for x
      by (auto simp: patchWith_def patchWith_id [OF ids] ids dest: find_id split: option.splits)
    show ?thesis by (simp add: pt)
  qed
  finally show ?case using IH by simp
qed

lemma find_filter_distinct:
  assumes "distinct (map b_id db)" and "x \<in> set db"
  shows "List.find (\<lambda>b. b_id b = b_id x) (rev (filter P db)) = (if P x then Some x else None)"
proof (cases "List.find (\<lambda>b. b_id b = b_id x) (rev (filter P db))")
  case None
  then have "\<not> P x" using assms(2) by (auto simp: find_None_iff)
  with None show ?thesis by simp
next
  case (Some y)
  then have y: "y \<in> set db" "P y" "b_id y = b_id x"
    using find_in_set by fastforce+
  from assms(1) have "inj_on b_id (set db)" by (simp add: distinct_map)
  with y assms(2) have "y = x" by (auto dest: inj_onD)
  with Some y show ?thesis by simp
qed

lemma fold_save_filter:
  assumes ids: "\<And>b. b_id (f b) = b_id b" and dist: "distinct (map b_id db)"
  shows "fold (\<lambda>benefit db. save (f benefit) db) (filter P db) db
         = map (\<lambda>x. if P x then f x else x) db"
proof -
  have "set (map b_id (filter P db)) \<subseteq> set (map b_id db)" by auto
  then have "fold (\<lambda>benefit db. save (f benefit) db) (filter P db) db
              = map (patchWith f (rev (filter P db))) db"
    by (rule fold_save_patch [OF ids])
  also have "\<dots> = map (\<lambda>x. if P x then f x else x) db"
    by (rule map_cong) (simp_all add: patchWith_def find_filter_distinct [OF dist])
  finally show ?thesis .
qed

lemma routeApprove_eq:
  assumes "distinct (map b_id db)"
  shows "routeApprove user benefitIds db =
     (length (filter (\<lambda>b. b_id b \<in> set benefitIds) db),
      map (\<lambda>b. if b_id b \<in> set benefitIds then approveDoc user b else b) db)"
  unfolding routeApprove_def Let_def
  by (simp add: fold_save_filter [OF _ assms] approveDoc_def)

lemma totalBenefitAmount_sendToFlash:
  "totalBenefitAmount (sendToFlash user now b) = totalBenefitAmount b"
  by (simp add: totalBenefitAmount_def sendToFlash_def Let_def)

lemma fold_sendStep:
  "fold (sendStep user now) bs (t, e, db) =
     (t + sum_list (map totalBenefitAmount bs), e @ map datumOf bs,
      fold (\<lambda>benefit db. save (sendToFlash user now benefit) db) bs db)"
proof (induction bs arbitrary: t e db)
  case Nil
  show ?case by simp
next
  case (Cons b bs)
  have step: "sendStep user now b (t, e, db) =
      (t + totalBenefitAmount b, e @ [datumOf b], save (sendToFlash user now b) db)"
    by (simp add: sendStep_def Let_def totalBenefitAmount_sendToFlash datumOf_def)
       (simp add: sendToFlash_def Let_def)
  show ?case by (simp add: step Cons.IH add.assoc)
qed

lemma routeSendToFlash_eq:
  assumes "distinct (map b_id db)"
  shows "routeSendToFlash user now nowStr benefitIds db =
     (\<lparr>sr_count = length (filter (toSend benefitIds) db),
       sr_flashResponse =
         \<lparr>fr_success = True, fr_reference = ''FLASH-'' @ nowStr,
          fr_totalAmount = sum_list (map totalBenefitAmount (filter (toSend benefitIds) db)),
          fr_employeeCount = length (filter (toSend benefitIds) db),
          fr_status = Processing\<rparr>,
       sr_totalAmount = sum_list (map totalBenefitAmount (filter (toSend benefitIds) db)),
       sr_employeeData = map datumOf (filter (toSend benefitIds) db)\<rparr>,
      map (\<lambda>b. if toSend benefitIds b then sendToFlash user now b else b) db)"
  unfolding routeSendToFlash_def Let_def
  by (simp add: fold_sendStep fold_save_filter [OF _ assms] sendToFlash_def Let_def)

lemma find_None_id: "List.find (\<lambda>b. b_id b = i) db = None \<longleftrightarrow> i \<notin> b_id ` set db"
  by (auto simp: find_None_iff)

lemma updateFirst_absent: "i \<notin> b_id ` set db \<Longrightarrow> updateFirst (\<lambda>b. b_id b = i) f db = db"
  by (induction db) auto

lemma map_absent: "i \<notin> b_id ` set db \<Longrightarrow> map (\<lambda>b. if b_id b = i then f b else b) db = db"
  by (induction db) auto

lemma updateFirst_distinct:
  "distinct (map b_id db) \<Longrightarrow>
   updateFirst (\<lambda>b. b_id b = i) f db = map (\<lambda>b. if b_id b = i then f b else b) db"
proof (induction db)
  case Nil
  show ?case by simp
next
  case (Cons x xs)
  show ?case
  proof (cases "b_id x = i")
    case True
    with Cons.prems have "i \<notin> b_id ` set xs" by auto
    then show ?thesis using True by (simp add: map_absent)
  next
    case False
    with Cons show ?thesis by simp
  qed
qed

lemma demoApproveLoop_eq:
  "distinct (map b_id db) \<Longrightarrow>
   demoApproveLoop user now ids db n =
     (n + length (filter (\<lambda>i. i \<in> b_id ` set db) ids),
      map (\<lambda>b. if b_id b \<in> set ids then demoApproveDoc user now b else b) db)"
proof (induction ids arbitrary: db n)
  case Nil
  show ?case by simp
next
  case (Cons i ids)
  show ?case
  proof (cases "List.find (\<lambda>b. b_id b = i) db")
    case None
    then have absent: "i \<notin> b_id ` set db" by (simp add: find_None_id)
    have "map (\<lambda>b. if b_id b \<in> set (i # ids) then demoApproveDoc user now b else b) db
          = map (\<lambda>b. if b_id b \<in> set ids then demoApproveDoc user now b else b) db"
      using absent by (intro map_cong) auto
    with None absent Cons show ?thesis by simp
  next
    case (Some b)
    then have present: "i \<in> b_id ` set db"
      using find_None_id [of i db] by auto
    let ?db = "map (\<lambda>b. if b_id b = i then demoApproveDoc user now b else b) db"
    have "b_id (if b_id x = i then demoApproveDoc user now x else x) = b_id x" for x
      by (simp add: demoApproveDoc_def)
    then have ids: "map b_id ?db = map b_id db"
      by (simp add: comp_def)
    have dist: "distinct (map b_id ?db)" using Cons.prems by (simp only: ids)
    have img: "b_id ` set ?db = b_id ` set db"
      using ids by (metis list.set_map)
    have step: "demoApproveLoop user now (i # ids) db n = demoApproveLoop user now ids ?db (n + 1)"
      using Some by (simp add: updateFirst_distinct [OF Cons.prems])
    have rec: "demoApproveLoop user now ids ?db (n + 1) =
        (n + 1 + length (filter (\<lambda>i. i \<in> b_id ` set ?db) ids),
         map (\<lambda>b. if b_id b \<in> set ids then demoApproveDoc user now b else b) ?db)"
      by (rule Cons.IH [OF dist])
    have maps: "map (\<lambda>b. if b_id b \<in> set ids then demoApproveDoc user now b else b) ?db
        = map (\<lambda>b. if b_id b \<in> set (i # ids) then demoApproveDoc user now b else b) db"
      by (auto simp: demoApproveDoc_def)
    have cnt: "n + 1 + length (filter (\<lambda>i. i \<in> b_id ` set ?db) ids)
        = n + length (filter (\<lambda>i. i \<in> b_id ` set db) (i # ids))"
      using present by (simp only: img) simp
    show ?thesis by (simp only: step rec maps cnt)
  qed
qed




lemma calculateVR_frame:
  "valeTransporte (snd (calculateVR b)) = valeTransporte b"
  "mobilidade (snd (calculateVR b)) = mobilidade b"
  "paymentStatus (snd (calculateVR b)) = paymentStatus b"
  "flashPayment (snd (calculateVR b)) = flashPayment b"
  "b_id (snd (calculateVR b)) = b_id b"
  by (simp_all add: calculateVR_def Let_def)

lemma calculateVT_frame:
  "valeRefeicao (snd (calculateVT b)) = valeRefeicao b"
  "mobilidade (snd (calculateVT b)) = mobilidade b"
  "paymentStatus (snd (calculateVT b)) = paymentStatus b"
  "flashPayment (snd (calculateVT b)) = flashPayment b"
  "b_id (snd (calculateVT b)) = b_id b"
  by (simp_all add: calculateVT_def Let_def)

lemma calculateVT_cong:
  "valeTransporte b = valeTransporte c \<Longrightarrow>
   valeTransporte (snd (calculateVT b)) = valeTransporte (snd (calculateVT c))"
  by (simp add: calculateVT_def Let_def)

lemma calculateVR_deductions:
  "vr_deductions (valeRefeicao (snd (calculateVR b))) = vr_deductions (valeRefeicao b)"
  by (simp add: calculateVR_def Let_def)

lemma calculateVT_deductions:
  "vt_deductions (valeTransporte (snd (calculateVT b))) = vt_deductions (valeTransporte b)"
  by (simp add: calculateVT_def Let_def)

lemma calculateVR_fresh: "vrFresh b \<Longrightarrow> snd (calculateVR b) = b"
  by (simp add: vrFresh_def calculateVR_def Let_def)

lemma calculateVT_fresh: "vtFresh b \<Longrightarrow> snd (calculateVT b) = b"
  by (simp add: vtFresh_def calculateVT_def Let_def)

lemma addDeduction_VR:
  "addDeduction ''VR'' d b =
     snd (calculateVT (snd (calculateVR (b\<lparr>valeRefeicao := (valeRefeicao b)
            \<lparr>vr_deductions := vr_deductions (valeRefeicao b) @ [d]\<rparr>\<rparr>))))"
  by (simp add: addDeduction_def Let_def)

lemma addDeduction_VT:
  "addDeduction ''VT'' d b =
     snd (calculateVT (snd (calculateVR (b\<lparr>valeTransporte := (valeTransporte b)
            \<lparr>vt_deductions := vt_deductions (valeTransporte b) @ [d]\<rparr>\<rparr>))))"
  by (simp add: addDeduction_def Let_def)

lemma addDeduction_other:
  "benefitType \<noteq> ''VR'' \<Longrightarrow> benefitType \<noteq> ''VT'' \<Longrightarrow>
   addDeduction benefitType d b = snd (calculateVT (snd (calculateVR b)))"
  by (simp add: addDeduction_def Let_def)

lemma addDeduction_VR_vt:
  "valeTransporte (addDeduction ''VR'' d b) = valeTransporte (snd (calculateVT b))"
  unfolding addDeduction_VR by (rule calculateVT_cong) (simp add: calculateVR_frame)

lemma addDeduction_VT_vr:
  "valeRefeicao (addDeduction ''VT'' d b) = valeRefeicao (snd (calculateVR b))"
  unfolding addDeduction_VT by (simp add: calculateVT_frame) (simp add: calculateVR_def Let_def)

lemmas ex_defs = exampleApproved1_def exampleApproved2_def exampleCalculated_def
  exampleBenefit_def exampleVR_def exampleVT_def exampleDeduction_def defaultMob_def
  defaultFlash_def jsnum_eval

subsection \<open>Deductions, calculation and statistics\<close>




lemma routeDeduction_found:
  "findById (dq_benefitId req) db = Some b \<Longrightarrow>
   routeDeduction user now req db =
     (if (dq_benefitType req = ''VR'' \<or> dq_benefitType req = ''VT'')
         \<and> \<not> validDeduction (deductionData user now req)
      then (Failure 500 ''Failed to add deduction'', db)
      else (Success ''Deduction added successfully''
              ((addDeduction (dq_benefitType req) (deductionData user now req) b)
                 \<lparr>updatedBy := Some user\<rparr>),
            save ((addDeduction (dq_benefitType req) (deductionData user now req) b)
                 \<lparr>updatedBy := Some user\<rparr>) db))"
  by (simp add: routeDeduction_def Let_def)











lemma calculateDoc_id: "b_id (calculateDoc user req b) = b_id b"
  by (simp add: calculateDoc_def applyPatches_def Let_def calculateVR_frame calculateVT_frame
      split: option.splits)




section \<open>The calculators\<close>

text \<open>
  Claim C1. For every record with \<^verbatim>\<open>valeRefeicao\<close> enabled, \<^verbatim>\<open>calculateVR\<close> sets
  \<^verbatim>\<open>totalDays\<close> to \<^verbatim>\<open>businessDays + saturdays\<close>, \<^verbatim>\<open>totalAmount\<close> to
  \<^verbatim>\<open>totalDays * dailyValue\<close> and \<^verbatim>\<open>finalAmount\<close> to the maximum of 0 and
  \<^verbatim>\<open>totalAmount\<close> minus the sum of the amounts of the VR deductions (on numbers
  \<open>x\<close>, \<open>y\<close>, \<open>v\<close> and amounts \<open>as\<close>, the real \<open>max 0 ((x + y) * v - sum_list as)\<close>);
  it stores that \<^verbatim>\<open>finalAmount\<close>, returns it and touches nothing else. With VR disabled it returns 0
  and leaves the record as it is. The VR branch of the in-memory server's calculate
  route leaves the same sub-document as \<^verbatim>\<open>calculateVR\<close>. With a daily value of 25, 22
  business days, no saturdays and no deductions, \<^verbatim>\<open>totalAmount\<close> and \<^verbatim>\<open>finalAmount\<close>
  are 550.
\<close>

theorem calculateVR_spec:
  "(vr_enabled (valeRefeicao b) \<longrightarrow>
      calculateVR b =
        (let totalDays = vr_businessDays (valeRefeicao b) + vr_saturdays (valeRefeicao b);
             total = totalDays * vr_dailyValue (valeRefeicao b);
             final = mathMax 0 (total - sum_list (map amount (vr_deductions (valeRefeicao b))))
         in (final, b\<lparr>valeRefeicao := (valeRefeicao b)
               \<lparr>vr_totalDays := totalDays, vr_totalAmount := total, vr_finalAmount := final\<rparr>\<rparr>)))
   \<and> (\<not> vr_enabled (valeRefeicao b) \<longrightarrow> calculateVR b = (0, b))
   \<and> valeRefeicao (demoCalculateDoc user now req b)
       = valeRefeicao (snd (calculateVR (applyPatches req b)))
   \<and> (vr_enabled (valeRefeicao b) \<and> vr_businessDays (valeRefeicao b) = Num x
        \<and> vr_saturdays (valeRefeicao b) = Num y \<and> vr_dailyValue (valeRefeicao b) = Num v
        \<and> map amount (vr_deductions (valeRefeicao b)) = map Num as \<longrightarrow>
      fst (calculateVR b) = Num (max 0 ((x + y) * v - sum_list as))
      \<and> vr_finalAmount (valeRefeicao (snd (calculateVR b)))
          = Num (max 0 ((x + y) * v - sum_list as)))
   \<and> (vr_enabled (valeRefeicao b) \<and> vr_dailyValue (valeRefeicao b) = 25
        \<and> vr_businessDays (valeRefeicao b) = 22 \<and> vr_saturdays (valeRefeicao b) = 0
        \<and> vr_deductions (valeRefeicao b) = [] \<longrightarrow>
      fst (calculateVR b) = 550
      \<and> vr_totalAmount (valeRefeicao (snd (calculateVR b))) = 550
      \<and> vr_finalAmount (valeRefeicao (snd (calculateVR b))) = 550)"
proof (intro conjI impI)
  assume "vr_enabled (valeRefeicao b)"
  then show "calculateVR b =
        (let totalDays = vr_businessDays (valeRefeicao b) + vr_saturdays (valeRefeicao b);
             total = totalDays * vr_dailyValue (valeRefeicao b);
             final = mathMax 0 (total - sum_list (map amount (vr_deductions (valeRefeicao b))))
         in (final, b\<lparr>valeRefeicao := (valeRefeicao b)
               \<lparr>vr_totalDays := totalDays, vr_totalAmount := total, vr_finalAmount := final\<rparr>\<rparr>))"
    by (rule calculateVR_enabled)
next
  assume "\<not> vr_enabled (valeRefeicao b)"
  then show "calculateVR b = (0, b)" by (rule calculateVR_disabled)
next
  show "valeRefeicao (demoCalculateDoc user now req b)
       = valeRefeicao (snd (calculateVR (applyPatches req b)))"
    by (rule demoCalculateDoc_VR)
next
  assume f: "vr_enabled (valeRefeicao b) \<and> vr_businessDays (valeRefeicao b) = Num x
        \<and> vr_saturdays (valeRefeicao b) = Num y \<and> vr_dailyValue (valeRefeicao b) = Num v
        \<and> map amount (vr_deductions (valeRefeicao b)) = map Num as"
  then show "fst (calculateVR b) = Num (max 0 ((x + y) * v - sum_list as))"
    by (simp add: calculateVR_enabled Let_def sum_list_Num zero_jsnum_def)
  from f show "vr_finalAmount (valeRefeicao (snd (calculateVR b)))
          = Num (max 0 ((x + y) * v - sum_list as))"
    by (simp add: calculateVR_enabled Let_def sum_list_Num zero_jsnum_def)
next
  assume a: "vr_enabled (valeRefeicao b) \<and> vr_dailyValue (valeRefeicao b) = 25
        \<and> vr_businessDays (valeRefeicao b) = 22 \<and> vr_saturdays (valeRefeicao b) = 0
        \<and> vr_deductions (valeRefeicao b) = []"
  then show "fst (calculateVR b) = 550"
    by (simp add: calculateVR_enabled Let_def jsnum_eval)
  from a show "vr_totalAmount (valeRefeicao (snd (calculateVR b))) = 550"
    by (simp add: calculateVR_enabled Let_def jsnum_eval)
  from a show "vr_finalAmount (valeRefeicao (snd (calculateVR b))) = 550"
    by (simp add: calculateVR_enabled Let_def jsnum_eval)
qed

theorem calculateVR_spec_witness:
  "calculateVR exampleBenefit
     = (550, exampleBenefit\<lparr>valeRefeicao := exampleVR\<lparr>vr_totalAmount := 550, vr_finalAmount := 550\<rparr>\<rparr>)
   \<and> calculateVR (exampleBenefit\<lparr>valeRefeicao := exampleVR\<lparr>vr_enabled := False\<rparr>\<rparr>)
     = (0, exampleBenefit\<lparr>valeRefeicao := exampleVR\<lparr>vr_enabled := False\<rparr>\<rparr>)"
  using calculateVR_spec [where b = exampleBenefit]
    calculateVR_spec [where b = "exampleBenefit\<lparr>valeRefeicao := exampleVR\<lparr>vr_enabled := False\<rparr>\<rparr>"]
  by (simp add: ex_defs Let_def)

text \<open>
  Claim C7. For every record with \<^verbatim>\<open>valeTransporte\<close> enabled, \<^verbatim>\<open>calculateVT\<close> sets
  \<^verbatim>\<open>totalAmount\<close> to \<^verbatim>\<open>fixedAmount\<close>, whatever \<^verbatim>\<open>totalDays\<close> and \<^verbatim>\<open>dailyValue\<close>
  are, and \<^verbatim>\<open>finalAmount\<close> to the maximum of 0 and \<^verbatim>\<open>totalAmount\<close> minus the sum of
  the amounts of the VT deductions (on a number \<open>x\<close> and amounts \<open>as\<close>, the real
  \<open>max 0 (x - sum_list as)\<close>), which it returns. With VT disabled it returns 0 and
  leaves the record as it is. The VT branch of the in-memory server's calculate route
  leaves the same sub-document. A fixed amount of 300 with one deduction of 50 gives a
  \<^verbatim>\<open>finalAmount\<close> of 250.
\<close>

theorem calculateVT_spec:
  "(vt_enabled (valeTransporte b) \<longrightarrow>
      calculateVT b =
        (let total = vt_fixedAmount (valeTransporte b);
             final = mathMax 0 (total - sum_list (map amount (vt_deductions (valeTransporte b))))
         in (final, b\<lparr>valeTransporte := (valeTransporte b)
               \<lparr>vt_totalAmount := total, vt_finalAmount := final\<rparr>\<rparr>)))
   \<and> (\<not> vt_enabled (valeTransporte b) \<longrightarrow> calculateVT b = (0, b))
   \<and> valeTransporte (demoCalculateDoc user now req b)
       = valeTransporte (snd (calculateVT (applyPatches req b)))
   \<and> (vt_enabled (valeTransporte b) \<and> vt_fixedAmount (valeTransporte b) = Num x
        \<and> map amount (vt_deductions (valeTransporte b)) = map Num as \<longrightarrow>
      fst (calculateVT b) = Num (max 0 (x - sum_list as))
      \<and> vt_finalAmount (valeTransporte (snd (calculateVT b))) = Num (max 0 (x - sum_list as)))
   \<and> (vt_enabled (valeTransporte b) \<and> vt_fixedAmount (valeTransporte b) = 300
        \<and> vt_deductions (valeTransporte b) = [d] \<and> amount d = 50 \<longrightarrow>
      fst (calculateVT b) = 250
      \<and> vt_totalAmount (valeTransporte (snd (calculateVT b))) = 300
      \<and> vt_finalAmount (valeTransporte (snd (calculateVT b))) = 250)"
proof (intro conjI impI)
  assume "vt_enabled (valeTransporte b)"
  then show "calculateVT b =
        (let total = vt_fixedAmount (valeTransporte b);
             final = mathMax 0 (total - sum_list (map amount (vt_deductions (valeTransporte b))))
         in (final, b\<lparr>valeTransporte := (valeTransporte b)
               \<lparr>vt_totalAmount := total, vt_finalAmount := final\<rparr>\<rparr>))"
    by (rule calculateVT_enabled)
next
  assume "\<not> vt_enabled (valeTransporte b)"
  then show "calculateVT b = (0, b)" by (rule calculateVT_disabled)
next
  show "valeTransporte (demoCalculateDoc user now req b)
       = valeTransporte (snd (calculateVT (applyPatches req b)))"
    by (rule demoCalculateDoc_VT)
next
  assume f: "vt_enabled (valeTransporte b) \<and> vt_fixedAmount (valeTransporte b) = Num x
        \<and> map amount (vt_deductions (valeTransporte b)) = map Num as"
  then show "fst (calculateVT b) = Num (max 0 (x - sum_list as))"
    by (simp add: calculateVT_enabled Let_def sum_list_Num zero_jsnum_def)
  from f show "vt_finalAmount (valeTransporte (snd (calculateVT b))) = Num (max 0 (x - sum_list as))"
    by (simp add: calculateVT_enabled Let_def sum_list_Num zero_jsnum_def)
next
  assume a: "vt_enabled (valeTransporte b) \<and> vt_fixedAmount (valeTransporte b) = 300
        \<and> vt_deductions (valeTransporte b) = [d] \<and> amount d = 50"
  then show "fst (calculateVT b) = 250"
    by (simp add: calculateVT_enabled Let_def jsnum_eval)
  from a show "vt_totalAmount (valeTransporte (snd (calculateVT b))) = 300"
    by (simp add: calculateVT_enabled Let_def jsnum_eval)
  from a show "vt_finalAmount (valeTransporte (snd (calculateVT b))) = 250"
    by (simp add: calculateVT_enabled Let_def jsnum_eval)
qed

theorem calculateVT_spec_witness:
  "fst (calculateVT (exampleBenefit\<lparr>valeTransporte :=
          exampleVT\<lparr>vt_dailyValue := 9, vt_totalDays := 5,
                    vt_deductions := [exampleDeduction 50]\<rparr>\<rparr>)) = 250
   \<and> calculateVT (exampleBenefit\<lparr>valeTransporte := exampleVT\<lparr>vt_enabled := False\<rparr>\<rparr>)
     = (0, exampleBenefit\<lparr>valeTransporte := exampleVT\<lparr>vt_enabled := False\<rparr>\<rparr>)"
  using calculateVT_spec [where b = "exampleBenefit\<lparr>valeTransporte :=
          exampleVT\<lparr>vt_dailyValue := 9, vt_totalDays := 5,
                    vt_deductions := [exampleDeduction 50]\<rparr>\<rparr>" and d = "exampleDeduction 50"]
    calculateVT_spec [where b = "exampleBenefit\<lparr>valeTransporte := exampleVT\<lparr>vt_enabled := False\<rparr>\<rparr>"]
  by (simp add: ex_defs Let_def)

section \<open>Approval and submission\<close>

text \<open>
  Claim C3, as the code has it. The approve operation looks at no status: every stored
  record whose id is in the list becomes \<^verbatim>\<open>Approved\<close> (and gets \<^verbatim>\<open>updatedBy\<close>),
  whatever its \<^verbatim>\<open>paymentStatus\<close> was, and every other record is left as it is. The
  number reported is the number of records found (database route) or of listed ids that
  name a record (in-memory server); nothing is reported as skipped and the call does not
  fail. Ids are unique in the collection.
\<close>

theorem approve_spec:
  assumes "distinct (map b_id db)"
  shows "routeApprove user benefitIds db =
           (length (filter (\<lambda>b. b_id b \<in> set benefitIds) db),
            map (\<lambda>b. if b_id b \<in> set benefitIds
                     then b\<lparr>paymentStatus := Approved, updatedBy := Some user\<rparr> else b) db)
       \<and> demoApprove user now benefitIds db =
           (length (filter (\<lambda>i. i \<in> b_id ` set db) benefitIds),
            map (\<lambda>b. if b_id b \<in> set benefitIds
                     then b\<lparr>paymentStatus := Approved, updatedAt := Some now,
                            updatedBy := Some user\<rparr> else b) db)"
  using routeApprove_eq [OF assms, of user benefitIds]
    demoApproveLoop_eq [OF assms, of user now benefitIds 0]
  by (simp add: approveDoc_def demoApproveDoc_def demoApprove_def)

theorem approve_spec_witness:
  "routeApprove ''hr'' [''b2'', ''zz''] [exampleApproved1\<lparr>paymentStatus := Calculated\<rparr>,
       exampleApproved2\<lparr>paymentStatus := Calculated\<rparr>]
   = (1, [exampleApproved1\<lparr>paymentStatus := Calculated\<rparr>,
          exampleApproved2\<lparr>paymentStatus := Approved, updatedBy := Some ''hr''\<rparr>])"
  using approve_spec [of "[exampleApproved1\<lparr>paymentStatus := Calculated\<rparr>,
       exampleApproved2\<lparr>paymentStatus := Calculated\<rparr>]" "''hr''" "[''b2'', ''zz'']"]
  by (simp add: ex_defs)

text \<open>
  The claim as stated fails: of a cancelled and a calculated record both end up approved,
  and the count reported is 2.
\<close>

theorem approve_counterexample:
  "routeApprove ''hr'' [''b1'', ''b2'']
      [exampleBenefit\<lparr>paymentStatus := Cancelled\<rparr>, exampleApproved2\<lparr>paymentStatus := Calculated\<rparr>]
   = (2, [exampleBenefit\<lparr>paymentStatus := Approved, updatedBy := Some ''hr''\<rparr>,
          exampleApproved2\<lparr>paymentStatus := Approved, updatedBy := Some ''hr''\<rparr>])
   \<and> demoApprove ''hr'' 0 [''b1'', ''b2'']
      [exampleBenefit\<lparr>paymentStatus := Cancelled\<rparr>, exampleApproved2\<lparr>paymentStatus := Calculated\<rparr>]
   = (2, [exampleBenefit\<lparr>paymentStatus := Approved, updatedAt := Some 0, updatedBy := Some ''hr''\<rparr>,
          exampleApproved2\<lparr>paymentStatus := Approved, updatedAt := Some 0, updatedBy := Some ''hr''\<rparr>])"
  by (simp add: routeApprove_def demoApprove_def save_def approveDoc_def demoApproveDoc_def ex_defs)

text \<open>
  Claim C2 at two approved records that have not been sent. The database route selects
  both, marks them sent with \<^verbatim>\<open>sentAt\<close> and \<^verbatim>\<open>sentBy\<close>, and reports a total of 700
  for 2 employees, as the claim says. But it leaves \<^verbatim>\<open>flashStatus\<close> at \<^verbatim>\<open>Pending\<close>
  where the claim says \<^verbatim>\<open>Processing\<close>, and it stores no \<^verbatim>\<open>flashReference\<close>: the
  reference \<^verbatim>\<open>FLASH-...\<close> and the status \<^verbatim>\<open>Processing\<close> are in the answer only, and
  \<^verbatim>\<open>GET /flash-status/:reference\<close>, which looks records up by their stored reference,
  finds none of them.
\<close>

theorem sendToFlash_stores_no_reference:
  "routeSendToFlash ''hr'' 7 ''7'' [''b1'', ''b2''] [exampleApproved1, exampleApproved2]
   = (\<lparr>sr_count = 2,
       sr_flashResponse = \<lparr>fr_success = True, fr_reference = ''FLASH-7'', fr_totalAmount = 700,
         fr_employeeCount = 2, fr_status = Processing\<rparr>,
       sr_totalAmount = 700,
       sr_employeeData =
         [\<lparr>ed_employeeId = ''e1'', ed_amount = 450, ed_vrAmount = 450, ed_vtAmount = 0,
           ed_mobilidadeAmount = 0\<rparr>,
          \<lparr>ed_employeeId = ''e2'', ed_amount = 250, ed_vrAmount = 0, ed_vtAmount = 250,
           ed_mobilidadeAmount = 0\<rparr>]\<rparr>,
      [exampleApproved1\<lparr>flashPayment := \<lparr>sent = True, sentAt = Some 7, sentBy = Some ''hr'',
           flashReference = None, flashStatus = FlashPending\<rparr>\<rparr>,
       exampleApproved2\<lparr>flashPayment := \<lparr>sent = True, sentAt = Some 7, sentBy = Some ''hr'',
           flashReference = None, flashStatus = FlashPending\<rparr>\<rparr>])"
  by (simp add: routeSendToFlash_def sendStep_def sendToFlash_def save_def toSend_def
      totalBenefitAmount_def Let_def ex_defs)

section \<open>The deduction ledger\<close>

text \<open>
  Claim C9, as the code has it. \<^verbatim>\<open>addDeduction(record, 'VR', d)\<close> appends to the VR list
  only and then runs both calculators: the \<^verbatim>\<open>valeTransporte\<close> sub-document afterwards is
  the one \<^verbatim>\<open>calculateVT\<close> leaves on the record, so its deductions are unchanged and all
  of it is unchanged when it was fresh (VT disabled, or \<^verbatim>\<open>totalAmount\<close> and
  \<^verbatim>\<open>finalAmount\<close> already the calculated ones). Symmetrically for \<^verbatim>\<open>'VT'\<close> and the
  \<^verbatim>\<open>valeRefeicao\<close> sub-document. The deduction route of the in-memory server
  recomputes the addressed benefit only and leaves the other sub-document unchanged.
\<close>

theorem addDeduction_frame:
  "valeTransporte (addDeduction ''VR'' d b) = valeTransporte (snd (calculateVT b))
   \<and> vt_deductions (valeTransporte (addDeduction ''VR'' d b)) = vt_deductions (valeTransporte b)
   \<and> (vtFresh b \<longrightarrow> valeTransporte (addDeduction ''VR'' d b) = valeTransporte b)
   \<and> valeRefeicao (addDeduction ''VT'' d b) = valeRefeicao (snd (calculateVR b))
   \<and> vr_deductions (valeRefeicao (addDeduction ''VT'' d b)) = vr_deductions (valeRefeicao b)
   \<and> (vrFresh b \<longrightarrow> valeRefeicao (addDeduction ''VT'' d b) = valeRefeicao b)
   \<and> (dq_benefitType req = ''VR'' \<longrightarrow>
        valeTransporte (demoDeductionDoc user now req b) = valeTransporte b)
   \<and> (dq_benefitType req = ''VT'' \<longrightarrow>
        valeRefeicao (demoDeductionDoc user now req b) = valeRefeicao b)"
proof (intro conjI impI)
  show "valeTransporte (addDeduction ''VR'' d b) = valeTransporte (snd (calculateVT b))"
    by (rule addDeduction_VR_vt)
  show "vt_deductions (valeTransporte (addDeduction ''VR'' d b)) = vt_deductions (valeTransporte b)"
    by (simp add: addDeduction_VR_vt calculateVT_deductions)
  show "valeRefeicao (addDeduction ''VT'' d b) = valeRefeicao (snd (calculateVR b))"
    by (rule addDeduction_VT_vr)
  show "vr_deductions (valeRefeicao (addDeduction ''VT'' d b)) = vr_deductions (valeRefeicao b)"
    by (simp add: addDeduction_VT_vr calculateVR_deductions)
next
  assume "vtFresh b"
  then show "valeTransporte (addDeduction ''VR'' d b) = valeTransporte b"
    by (simp add: addDeduction_VR_vt calculateVT_fresh)
next
  assume "vrFresh b"
  then show "valeRefeicao (addDeduction ''VT'' d b) = valeRefeicao b"
    by (simp add: addDeduction_VT_vr calculateVR_fresh)
next
  assume "dq_benefitType req = ''VR''"
  then show "valeTransporte (demoDeductionDoc user now req b) = valeTransporte b"
    by (simp add: demoDeductionDoc_def Let_def)
next
  assume "dq_benefitType req = ''VT''"
  then show "valeRefeicao (demoDeductionDoc user now req b) = valeRefeicao b"
    by (simp add: demoDeductionDoc_def Let_def)
qed

theorem addDeduction_frame_witness:
  "valeTransporte (addDeduction ''VR'' (exampleDeduction 100) exampleCalculated)
     = valeTransporte exampleCalculated
   \<and> valeRefeicao (addDeduction ''VT'' (exampleDeduction 50) exampleCalculated)
     = valeRefeicao exampleCalculated
   \<and> valeTransporte (demoDeductionDoc ''hr'' 9 negativeDeductionRequest exampleBenefit)
     = valeTransporte exampleBenefit
   \<and> valeRefeicao (demoDeductionDoc ''hr'' 9 (negativeDeductionRequest\<lparr>dq_benefitType := ''VT''\<rparr>)
        exampleBenefit)
     = valeRefeicao exampleBenefit"
proof -
  have fresh: "vtFresh exampleCalculated" "vrFresh exampleCalculated"
    by (simp_all add: vtFresh_def vrFresh_def ex_defs sumDeductions_def)
  from fresh(1) addDeduction_frame [where b = exampleCalculated and d = "exampleDeduction 100"]
  have vt: "valeTransporte (addDeduction ''VR'' (exampleDeduction 100) exampleCalculated)
     = valeTransporte exampleCalculated"
    by blast
  from fresh(2) addDeduction_frame [where b = exampleCalculated and d = "exampleDeduction 50"]
  have vr: "valeRefeicao (addDeduction ''VT'' (exampleDeduction 50) exampleCalculated)
     = valeRefeicao exampleCalculated"
    by blast
  have "dq_benefitType negativeDeductionRequest = ''VR''"
    by (simp add: negativeDeductionRequest_def)
  with addDeduction_frame [where b = exampleBenefit and req = negativeDeductionRequest
      and user = "''hr''" and now = 9]
  have dvt: "valeTransporte (demoDeductionDoc ''hr'' 9 negativeDeductionRequest exampleBenefit)
     = valeTransporte exampleBenefit"
    by blast
  have "dq_benefitType (negativeDeductionRequest\<lparr>dq_benefitType := ''VT''\<rparr>) = ''VT''"
    by simp
  with addDeduction_frame [where b = exampleBenefit
      and req = "negativeDeductionRequest\<lparr>dq_benefitType := ''VT''\<rparr>"
      and user = "''hr''" and now = 9]
  have dvr: "valeRefeicao (demoDeductionDoc ''hr'' 9
        (negativeDeductionRequest\<lparr>dq_benefitType := ''VT''\<rparr>) exampleBenefit)
     = valeRefeicao exampleBenefit"
    by blast
  from vt vr dvt dvr show ?thesis by blast
qed

text \<open>
  The claim as stated fails on a record that has not been calculated yet: a VR deduction
  moves the VT amounts from 0 to 300.
\<close>

theorem addDeduction_frame_counterexample:
  "vt_totalAmount (valeTransporte exampleBenefit) = 0
   \<and> vt_finalAmount (valeTransporte exampleBenefit) = 0
   \<and> vt_totalAmount (valeTransporte (addDeduction ''VR'' (exampleDeduction 100) exampleBenefit)) = 300
   \<and> vt_finalAmount (valeTransporte (addDeduction ''VR'' (exampleDeduction 100) exampleBenefit)) = 300"
  by (simp add: addDeduction_def calculateVR_def calculateVT_def Let_def sumDeductions_def ex_defs)




text \<open>
  Claim C10. When \<^verbatim>\<open>addDeduction\<close> is called with a type string other than
  \<^verbatim>\<open>'VR'\<close> and \<^verbatim>\<open>'VT'\<close>, the deduction is appended to neither list, both
  calculators still run on the record (the result is the record after \<^verbatim>\<open>calculateVR\<close>
  and \<^verbatim>\<open>calculateVT\<close>, so stale amounts change), and the route answers
  \<^verbatim>\<open>Deduction added successfully\<close>.
\<close>

theorem addDeduction_other_type:
  "benefitType \<noteq> ''VR'' \<and> benefitType \<noteq> ''VT'' \<longrightarrow>
     addDeduction benefitType d b = snd (calculateVT (snd (calculateVR b)))
     \<and> vr_deductions (valeRefeicao (addDeduction benefitType d b)) = vr_deductions (valeRefeicao b)
     \<and> vt_deductions (valeTransporte (addDeduction benefitType d b)) = vt_deductions (valeTransporte b)
     \<and> (findById (dq_benefitId req) db = Some b \<and> dq_benefitType req = benefitType \<longrightarrow>
          routeDeduction user now req db =
            (Success ''Deduction added successfully''
               ((snd (calculateVT (snd (calculateVR b))))\<lparr>updatedBy := Some user\<rparr>),
             save ((snd (calculateVT (snd (calculateVR b))))\<lparr>updatedBy := Some user\<rparr>) db))"
proof (intro impI)
  assume t: "benefitType \<noteq> ''VR'' \<and> benefitType \<noteq> ''VT''"
  then have eq: "addDeduction benefitType d b = snd (calculateVT (snd (calculateVR b)))" for d
    by (simp add: addDeduction_other)
  have vr: "vr_deductions (valeRefeicao (addDeduction benefitType d b)) = vr_deductions (valeRefeicao b)"
    by (simp add: eq calculateVT_frame calculateVR_deductions)
  have vt: "vt_deductions (valeTransporte (addDeduction benefitType d b)) = vt_deductions (valeTransporte b)"
    by (simp add: eq calculateVT_deductions calculateVR_frame)
  have route: "routeDeduction user now req db =
            (Success ''Deduction added successfully''
               ((snd (calculateVT (snd (calculateVR b))))\<lparr>updatedBy := Some user\<rparr>),
             save ((snd (calculateVT (snd (calculateVR b))))\<lparr>updatedBy := Some user\<rparr>) db)"
    if "findById (dq_benefitId req) db = Some b \<and> dq_benefitType req = benefitType"
    using that t by (simp add: routeDeduction_found eq)
  from eq vr vt route
  show "addDeduction benefitType d b = snd (calculateVT (snd (calculateVR b)))
     \<and> vr_deductions (valeRefeicao (addDeduction benefitType d b)) = vr_deductions (valeRefeicao b)
     \<and> vt_deductions (valeTransporte (addDeduction benefitType d b)) = vt_deductions (valeTransporte b)
     \<and> (findById (dq_benefitId req) db = Some b \<and> dq_benefitType req = benefitType \<longrightarrow>
          routeDeduction user now req db =
            (Success ''Deduction added successfully''
               ((snd (calculateVT (snd (calculateVR b))))\<lparr>updatedBy := Some user\<rparr>),
             save ((snd (calculateVT (snd (calculateVR b))))\<lparr>updatedBy := Some user\<rparr>) db))"
    by blast
qed

theorem addDeduction_other_type_witness:
  "routeDeduction ''hr'' 9 otherTypeRequest [exampleBenefit]
   = (Success ''Deduction added successfully''
        (exampleBenefit\<lparr>valeRefeicao := exampleVR\<lparr>vr_totalAmount := 550, vr_finalAmount := 550\<rparr>,
                        valeTransporte := exampleVT\<lparr>vt_totalAmount := 300, vt_finalAmount := 300\<rparr>,
                        updatedBy := Some ''hr''\<rparr>),
      [exampleBenefit\<lparr>valeRefeicao := exampleVR\<lparr>vr_totalAmount := 550, vr_finalAmount := 550\<rparr>,
                      valeTransporte := exampleVT\<lparr>vt_totalAmount := 300, vt_finalAmount := 300\<rparr>,
                      updatedBy := Some ''hr''\<rparr>])"
proof -
  have pre: "''Mobilidade'' \<noteq> ''VR'' \<and> ''Mobilidade'' \<noteq> ''VT''" by simp
  have found: "findById (dq_benefitId otherTypeRequest) [exampleBenefit] = Some exampleBenefit
      \<and> dq_benefitType otherTypeRequest = ''Mobilidade''"
    by (simp add: findById_def otherTypeRequest_def ex_defs)
  from pre found addDeduction_other_type [where benefitType = "''Mobilidade''"
      and b = exampleBenefit and req = otherTypeRequest and db = "[exampleBenefit]"
      and user = "''hr''" and now = 9]
  have "routeDeduction ''hr'' 9 otherTypeRequest [exampleBenefit] =
            (Success ''Deduction added successfully''
               ((snd (calculateVT (snd (calculateVR exampleBenefit))))\<lparr>updatedBy := Some ''hr''\<rparr>),
             save ((snd (calculateVT (snd (calculateVR exampleBenefit))))\<lparr>updatedBy := Some ''hr''\<rparr>)
               [exampleBenefit])"
    by blast
  then show ?thesis
    by (simp add: calculateVR_def calculateVT_def Let_def sumDeductions_def save_def ex_defs)
qed

section \<open>The calculate operation and the payment status\<close>




section \<open>Statistics\<close>




section \<open>Final amounts that are not at least 0\<close>

text \<open>
  Claim C6 at two requests to the in-memory server. A calculation whose input disables the
  meal voucher and gives it a \<^verbatim>\<open>finalAmount\<close> of -50 stores -50: the clamp is in the
  branch that a disabled benefit skips. A deduction whose amount is no number stores a
  \<^verbatim>\<open>finalAmount\<close> of \<^verbatim>\<open>NaN\<close>, which is not at least 0 either: \<^verbatim>\<open>Math.max(0, NaN)\<close>
  is \<^verbatim>\<open>NaN\<close>.
\<close>

theorem finalAmount_negative_stored:
  "demoCalculateDoc ''hr'' 9 negativeFinalRequest exampleBenefit
   = exampleBenefit\<lparr>valeRefeicao := exampleVR\<lparr>vr_enabled := False, vr_finalAmount := - 50\<rparr>,
        valeTransporte := exampleVT\<lparr>vt_totalAmount := 300, vt_finalAmount := 300\<rparr>,
        paymentStatus := Calculated, updatedBy := Some ''hr'', updatedAt := Some 9\<rparr>
   \<and> demoDeduction ''hr'' 9 nanAmountRequest [exampleCalculated]
   = (Success ''Deduction added successfully''
        (exampleCalculated\<lparr>valeRefeicao := exampleVR\<lparr>vr_totalAmount := 550,
             vr_deductions := [deductionData ''hr'' 9 nanAmountRequest], vr_finalAmount := NaN\<rparr>,
           updatedBy := Some ''hr'', updatedAt := Some 9\<rparr>),
      [exampleCalculated\<lparr>valeRefeicao := exampleVR\<lparr>vr_totalAmount := 550,
             vr_deductions := [deductionData ''hr'' 9 nanAmountRequest], vr_finalAmount := NaN\<rparr>,
           updatedBy := Some ''hr'', updatedAt := Some 9\<rparr>])
   \<and> amount (deductionData ''hr'' 9 nanAmountRequest) = NaN"
  by (simp add: demoCalculateDoc_def applyPatches_def mergeVR_def demoDeduction_def
      demoDeductionDoc_def deductionData_def sumDeductions_def nanAmountRequest_def
      negativeDeductionRequest_def negativeFinalRequest_def Let_def ex_defs)

end
